theory Spec2Isabelle
  imports Complex_Main "HOL-Library.Log_Nat"
begin

section \<open>TailingsIQ API: a shallow embedding of \<open>backend/main.py\<close>\<close>

text \<open>
  The module keeps three process-wide variables (two lists and a counter), issues and
  checks bearer tokens, and serves four facility routes. Each route handler becomes a
  function of its arguments, of the readings it takes from the outside world (the UTC
  clock, the random generator) and of the store; a handler that mutates the store returns
  the new store beside its result, and \<open>raise HTTPException(...)\<close> is the left summand
  of the result.
\<close>

subsection \<open>Data model\<close>

text \<open>
  Instants are whole seconds of UTC since the epoch (unbounded integers), the resolution of
  the \<open>exp\<close> claim of a token; \<open>now\<close> always stands for the reading of
  \<open>datetime.utcnow()\<close> at that resolution. A \<open>timedelta\<close> is a number of seconds.
\<close>

type_synonym datetime = int
type_synonym timedelta = int

definition minutes :: "int \<Rightarrow> timedelta" where
  "minutes m = 60 * m"

text \<open>\<open>HTTPException(status_code, detail, headers)\<close>; \<open>headers\<close> defaults to \<open>None\<close>.\<close>

datatype http_exception =
  HTTPException (status_code: nat) (detail: string) (headers: "(string \<times> string) list option")

definition HTTP_401_UNAUTHORIZED :: nat where
  "HTTP_401_UNAUTHORIZED = 401"

text \<open>
  \<open>class Facility(BaseModel)\<close>. The fields \<open>id\<close> and \<open>type\<close> carry a suffix, their
  names being taken in HOL.
\<close>

record Facility =
  id_field :: "int option"
  name :: string
  location :: string
  type_field :: string
  owner :: string
  status :: string

text \<open>
  \<open>class RiskAssessment(BaseModel)\<close>. A Python float is a binary double; it is kept as
  the rational number that it is exactly equal to, so the score \<open>0.3\<close> is the rational
  \<open>5404319552844595 / 2 ^ 54\<close>.
\<close>

record RiskAssessment =
  facility_id :: int
  risk_score :: rat
  risk_level :: string
  recommendations :: "string list"
  timestamp :: datetime

text \<open>The module's global variables, and their values when the module has been loaded.\<close>

record store =
  facilities_db :: "Facility list"
  risk_assessments_db :: "RiskAssessment list"
  facility_counter :: int

definition initial_store :: store where
  "initial_store = \<lparr>facilities_db = [], risk_assessments_db = [], facility_counter = 1\<rparr>"

subsection \<open>Facility routes\<close>

text \<open>
  Every handler receives \<open>current_user\<close>, the user name that the \<open>verify_token\<close>
  dependency resolved for the request. The path parameter \<open>facility_id\<close> is written
  \<open>fid\<close>, the longer name being the field of \<open>RiskAssessment\<close>.
\<close>

definition get_facilities :: "string \<Rightarrow> store \<Rightarrow> Facility list" where
  "get_facilities current_user s = facilities_db s"

definition create_facility :: "Facility \<Rightarrow> string \<Rightarrow> store \<Rightarrow> Facility \<times> store" where
  "create_facility facility current_user s =
     (let facility' = facility\<lparr>id_field := Some (facility_counter s)\<rparr>
      in (facility',
          s\<lparr>facility_counter := facility_counter s + 1,
            facilities_db := facilities_db s @ [facility']\<rparr>))"

text \<open>\<open>next((f for f in facilities_db if f.id == facility_id), None)\<close>\<close>

definition lookup_facility :: "int \<Rightarrow> store \<Rightarrow> Facility option" where
  "lookup_facility fid s =
     find (\<lambda>f. id_field f = Some fid) (facilities_db s)"

definition not_found :: http_exception where
  "not_found = HTTPException 404 ''Facility not found'' None"

definition get_facility :: "int \<Rightarrow> string \<Rightarrow> store \<Rightarrow> http_exception + Facility" where
  "get_facility fid current_user s =
     (case lookup_facility fid s of
        None \<Rightarrow> Inl not_found
      | Some facility \<Rightarrow> Inr facility)"

subsection \<open>Floating point\<close>

text \<open>
  Rounding a number to the nearest integer, a tie going to the even neighbour: the
  rounding of IEEE 754 arithmetic and of Python's \<open>round\<close>.
\<close>

definition round_half_even :: "rat \<Rightarrow> int" where
  "round_half_even y =
     (let f = \<lfloor>y\<rfloor>; d = y - of_int f
      in if d < 1 / 2 then f
         else if 1 / 2 < d then f + 1
         else if even f then f else f + 1)"

text \<open>The integer part of the binary logarithm of a positive number.\<close>

definition ilog2 :: "rat \<Rightarrow> int" where
  "ilog2 x = (if 1 \<le> x then bitlen \<lfloor>x\<rfloor> - 1 else - bitlen (\<lceil>1 / x\<rceil> - 1))"

text \<open>
  The double nearest to a number: 53 significant bits, so the last bit of a number
  between \<open>2 ^ p\<close> and \<open>2 ^ (p + 1)\<close> weighs \<open>2 ^ (p - 52)\<close>, and never less than
  \<open>2 ^ (- 1074)\<close>, the weight of the last bit of a subnormal. Every float operation
  and every decimal literal of the program is the exact result rounded in this way.
  Magnitudes from \<open>2 ^ 1024\<close> on, which overflow, do not occur here.
\<close>

definition to_float :: "rat \<Rightarrow> rat" where
  "to_float x =
     (if x = 0 then 0
      else let e = max (ilog2 \<bar>x\<bar> - 52) (- 1074)
           in of_int (round_half_even (x / 2 powi e)) * 2 powi e)"

text \<open>
  \<open>random.uniform(a, b)\<close> returns \<open>a + (b - a) * self.random()\<close>, three float
  operations, where \<open>random()\<close> is the generator's next draw from \<open>[0, 1)\<close>; the draw
  is the argument \<open>r\<close>.
\<close>

definition uniform :: "rat \<Rightarrow> rat \<Rightarrow> rat \<Rightarrow> rat" where
  "uniform a b r = to_float (a + to_float (to_float (b - a) * r))"

text \<open>
  Python's \<open>round(x, ndigits)\<close> for a float \<open>x\<close> and \<open>ndigits\<close> decimals: the exact
  value of \<open>x\<close> is rounded to the nearest multiple of \<open>10 ^ (- ndigits)\<close>, a tie going to
  the even one, and the result is the double nearest to that decimal number.
\<close>

definition round_py :: "rat \<Rightarrow> nat \<Rightarrow> rat" where
  "round_py x ndigits =
     to_float (of_int (round_half_even (x * 10 ^ ndigits)) / 10 ^ ndigits)"

subsection \<open>Risk assessment route\<close>

text \<open>
  The tier of a score with its recommendations: the \<open>if / elif / else\<close> of the handler,
  which compares the score with the doubles that the literals \<open>0.3\<close> and \<open>0.7\<close> denote.
\<close>

definition risk_tier :: "rat \<Rightarrow> string \<times> string list" where
  "risk_tier score =
     (if score < to_float (3 / 10) then
        (''Low'',
         [''Continue regular monitoring'',
          ''Maintain current safety protocols''])
      else if score < to_float (7 / 10) then
        (''Medium'',
         [''Increase monitoring frequency'',
          ''Review safety procedures'',
          ''Consider additional safety measures''])
      else
        (''High'',
         [''Immediate safety review required'',
          ''Increase monitoring to daily'',
          ''Consider emergency response planning'',
          ''Consult with safety experts'']))"

definition perform_risk_assessment ::
  "int \<Rightarrow> string \<Rightarrow> rat \<Rightarrow> datetime \<Rightarrow> store \<Rightarrow> http_exception + RiskAssessment \<times> store" where
  "perform_risk_assessment fid current_user r now s =
     (case lookup_facility fid s of
        None \<Rightarrow> Inl not_found
      | Some facility \<Rightarrow>
          (let score = round_py (uniform (to_float (1 / 10)) (to_float (9 / 10)) r) 2;
               (level, recs) = risk_tier score;
               assessment = \<lparr>facility_id = fid, risk_score = score, risk_level = level,
                              recommendations = recs, timestamp = now\<rparr>
           in Inr (assessment,
                   s\<lparr>risk_assessments_db := risk_assessments_db s @ [assessment]\<rparr>)))"

text \<open>
  A run of creation requests, each a request body with the user it was authenticated as,
  served one after the other: the records returned, in order, and the store left behind.
\<close>

fun create_facilities :: "(Facility \<times> string) list \<Rightarrow> store \<Rightarrow> Facility list \<times> store" where
  "create_facilities [] s = ([], s)"
| "create_facilities ((facility, current_user) # requests) s =
     (let (created, s') = create_facility facility current_user s;
          (rest, s'') = create_facilities requests s'
      in (created # rest, s''))"

subsection \<open>Signed tokens (the PyJWT interface)\<close>

text \<open>
  The decoded payload of a token: the claims this program writes or reads (\<open>sub\<close>,
  \<open>exp\<close>) and those the decoder checks on its own when they are there (\<open>iat\<close>,
  \<open>nbf\<close>, \<open>aud\<close>), each with a value of the type the decoder expects: a string,
  an instant, a list of audiences. A claim that is missing is \<open>None\<close>, which is also
  what \<open>payload.get\<close> gives for it.
\<close>

record claims =
  sub_claim :: "string option"
  exp_claim :: "datetime option"
  nbf_claim :: "datetime option"
  iat_claim :: "datetime option"
  aud_claim :: "string list option"

text \<open>
  A token string either is no compact serialisation of a signed JSON object at all, or it
  has a header algorithm, a payload and a signature. The signature is symbolic: it is
  the key it was computed with, so that it verifies under that key and under no other.
\<close>

datatype jwt =
  Malformed string
| Signed (alg: string) (payload: claims) (signing_key: string)

datatype PyJWTError =
  DecodeError
| InvalidAlgorithmError
| InvalidSignatureError
| ImmatureSignatureError
| ExpiredSignatureError
| InvalidAudienceError

definition jwt_encode :: "claims \<Rightarrow> string \<Rightarrow> string \<Rightarrow> jwt" where
  "jwt_encode to_encode key algorithm = Signed algorithm to_encode key"

text \<open>
  \<open>jwt.decode(token, key, algorithms=...)\<close> with the library's default options and
  neither audience nor issuer given, at the instant \<open>now\<close>: the checks in the library's
  order. An empty list of algorithms is refused before the token is looked at. A token is
  not yet valid before its \<open>iat\<close> and before its \<open>nbf\<close> instant, it is expired from
  its \<open>exp\<close> instant on, and a token that names an audience is refused when the caller
  names none.
\<close>

definition jwt_decode :: "jwt \<Rightarrow> string \<Rightarrow> string list \<Rightarrow> datetime \<Rightarrow> PyJWTError + claims" where
  "jwt_decode token key algorithms now =
     (if algorithms = [] then Inl DecodeError
      else case token of
        Malformed _ \<Rightarrow> Inl DecodeError
      | Signed a p k \<Rightarrow>
          if a \<notin> set algorithms then Inl InvalidAlgorithmError
          else if k \<noteq> key then Inl InvalidSignatureError
          else if (case iat_claim p of Some i \<Rightarrow> now < i | None \<Rightarrow> False)
            then Inl ImmatureSignatureError
          else if (case nbf_claim p of Some n \<Rightarrow> now < n | None \<Rightarrow> False)
            then Inl ImmatureSignatureError
          else if (case exp_claim p of Some e \<Rightarrow> e \<le> now | None \<Rightarrow> False)
            then Inl ExpiredSignatureError
          else if (case aud_claim p of Some (x # xs) \<Rightarrow> True | _ \<Rightarrow> False)
            then Inl InvalidAudienceError
          else Inr p)"

subsection \<open>Authentication functions\<close>

text \<open>
  \<open>SECRET_KEY\<close> is read from the environment once, when the module is loaded; the
  functions below take it as their first argument \<open>secret_key\<close>.
\<close>

definition ALGORITHM :: string where
  "ALGORITHM = ''HS256''"

definition ACCESS_TOKEN_EXPIRE_MINUTES :: int where
  "ACCESS_TOKEN_EXPIRE_MINUTES = 30"

text \<open>
  \<open>if expires_delta:\<close> takes the second branch for \<open>None\<close> and for a zero
  \<open>timedelta\<close>, the one falsy value of that type.
\<close>

definition create_access_token :: "string \<Rightarrow> claims \<Rightarrow> timedelta option \<Rightarrow> datetime \<Rightarrow> jwt" where
  "create_access_token secret_key data expires_delta now =
     (let to_encode = data;
          expire = (case expires_delta of
                      Some d \<Rightarrow> if d \<noteq> 0 then now + d else now + minutes 15
                    | None \<Rightarrow> now + minutes 15);
          to_encode = to_encode\<lparr>exp_claim := Some expire\<rparr>
      in jwt_encode to_encode secret_key ALGORITHM)"

definition credentials_exception :: http_exception where
  "credentials_exception =
     HTTPException HTTP_401_UNAUTHORIZED ''Could not validate credentials''
       (Some [(''WWW-Authenticate'', ''Bearer'')])"

definition verify_token :: "string \<Rightarrow> jwt \<Rightarrow> datetime \<Rightarrow> http_exception + string" where
  "verify_token secret_key token now =
     (case jwt_decode token secret_key [ALGORITHM] now of
        Inl e \<Rightarrow> Inl credentials_exception
      | Inr p \<Rightarrow>
          (case sub_claim p of
             None \<Rightarrow> Inl credentials_exception
           | Some username \<Rightarrow> Inr username))"


text \<open>The form of the login request, and the response model \<open>Token\<close>.\<close>

record OAuth2PasswordRequestForm =
  username :: string
  password :: string

record Token =
  access_token :: jwt
  token_type :: string

definition login_exception :: http_exception where
  "login_exception =
     HTTPException HTTP_401_UNAUTHORIZED ''Incorrect username or password''
       (Some [(''WWW-Authenticate'', ''Bearer'')])"

definition login :: "string \<Rightarrow> OAuth2PasswordRequestForm \<Rightarrow> datetime \<Rightarrow> http_exception + Token" where
  "login secret_key form_data now =
     (if username form_data = ''demo'' \<and> password form_data = ''demo'' then
        (let access_token_expires = minutes ACCESS_TOKEN_EXPIRE_MINUTES;
             token = create_access_token secret_key
                       \<lparr>sub_claim = Some (username form_data), exp_claim = None,
                        nbf_claim = None, iat_claim = None, aud_claim = None\<rparr>
                       (Some access_token_expires) now
         in Inr \<lparr>access_token = token, token_type = ''bearer''\<rparr>)
      else Inl login_exception)"

subsection \<open>Conditions on a token\<close>








subsection \<open>Sample requests\<close>

text \<open>
  Concrete inputs on which the properties below are run: a request body, the store after
  that one creation, the assessments that the draws \<open>0\<close>, \<open>1/2\<close>, \<open>0.24375\<close> (the
  double \<open>8782019273372467 / 2 ^ 55\<close>) and \<open>99/100\<close> produce for it at the instant
  \<open>1000\<close>, the token that a login at that instant returns under the default key, and
  three tokens signed with that key that carry an \<open>nbf\<close>, an \<open>aud\<close> or an \<open>iat\<close>
  claim beside.
\<close>

definition demo_facility :: Facility where
  "demo_facility =
     \<lparr>id_field = None, name = ''Pit 1'', location = ''North'', type_field = ''dam'',
      owner = ''ACME'', status = ''active''\<rparr>"

definition one_facility_store :: store where
  "one_facility_store = snd (create_facility demo_facility ''demo'' initial_store)"

definition low_assessment :: RiskAssessment where
  "low_assessment =
     \<lparr>facility_id = 1, risk_score = to_float (1 / 10), risk_level = ''Low'',
      recommendations =
        [''Continue regular monitoring'', ''Maintain current safety protocols''],
      timestamp = 1000\<rparr>"

definition medium_assessment :: RiskAssessment where
  "medium_assessment =
     \<lparr>facility_id = 1, risk_score = 1 / 2, risk_level = ''Medium'',
      recommendations =
        [''Increase monitoring frequency'', ''Review safety procedures'',
         ''Consider additional safety measures''],
      timestamp = 1000\<rparr>"

definition boundary_assessment :: RiskAssessment where
  "boundary_assessment =
     \<lparr>facility_id = 1, risk_score = to_float (3 / 10), risk_level = ''Medium'',
      recommendations =
        [''Increase monitoring frequency'', ''Review safety procedures'',
         ''Consider additional safety measures''],
      timestamp = 1000\<rparr>"

definition high_assessment :: RiskAssessment where
  "high_assessment =
     \<lparr>facility_id = 1, risk_score = to_float (89 / 100), risk_level = ''High'',
      recommendations =
        [''Immediate safety review required'', ''Increase monitoring to daily'',
         ''Consider emergency response planning'', ''Consult with safety experts''],
      timestamp = 1000\<rparr>"

definition demo_form :: OAuth2PasswordRequestForm where
  "demo_form = \<lparr>username = ''demo'', password = ''demo''\<rparr>"

definition wrong_form :: OAuth2PasswordRequestForm where
  "wrong_form = \<lparr>username = ''demo'', password = ''Demo''\<rparr>"

definition default_key :: string where
  "default_key = ''your-secret-key-here''"

definition demo_token :: jwt where
  "demo_token =
     Signed ''HS256''
       \<lparr>sub_claim = Some ''demo'', exp_claim = Some 2800, nbf_claim = None, iat_claim = None,
        aud_claim = None\<rparr>
       default_key"




section \<open>Properties\<close>

subsection \<open>Rounding and the score\<close>

lemma floor_le_round_half_even: "\<lfloor>y\<rfloor> \<le> round_half_even y"
  by (simp add: round_half_even_def Let_def)

lemma round_half_even_nonneg: "0 \<le> y \<Longrightarrow> 0 \<le> round_half_even y"
  using floor_le_round_half_even [of y] by (simp add: order_trans [of 0 "\<lfloor>y\<rfloor>"])

lemma round_half_even_error: "\<bar>of_int (round_half_even y) - y\<bar> \<le> 1 / 2"
proof -
  have "of_int \<lfloor>y\<rfloor> \<le> y" and "y < of_int \<lfloor>y\<rfloor> + 1" by linarith+
  then show ?thesis
    by (auto simp: round_half_even_def Let_def abs_le_iff)
qed

lemma round_half_even_lower:
  assumes "of_int a - 1 / 2 < y"
  shows "a \<le> round_half_even y"
proof -
  from round_half_even_error [of y] assms
  have "of_int a - 1 < (of_int (round_half_even y) :: rat)" by linarith
  then have "(of_int (a - 1) :: rat) < of_int (round_half_even y)" by simp
  then have "a - 1 < round_half_even y" by (simp only: of_int_less_iff)
  then show ?thesis by simp
qed

lemma round_half_even_upper:
  assumes "y < of_int b + 1 / 2"
  shows "round_half_even y \<le> b"
proof -
  from round_half_even_error [of y] assms
  have "(of_int (round_half_even y) :: rat) < of_int b + 1" by linarith
  then have "(of_int (round_half_even y) :: rat) < of_int (b + 1)" by simp
  then have "round_half_even y < b + 1" by (simp only: of_int_less_iff)
  then show ?thesis by simp
qed

text \<open>\<open>ilog2\<close> is the integer part of the binary logarithm.\<close>

lemma ilog2_bounds:
  assumes "0 < x"
  shows "2 powi ilog2 x \<le> x" and "x < 2 powi (ilog2 x + 1)"
proof -
  have "2 powi ilog2 x \<le> x \<and> x < 2 powi (ilog2 x + 1)"
  proof (cases "1 \<le> x")
    case True
    let ?n = "\<lfloor>x\<rfloor>"
    let ?b = "bitlen ?n"
    from True have n: "0 < ?n" by simp
    from bitlen_bounds [OF n] have lo: "2 ^ nat (?b - 1) \<le> ?n" and hi: "?n < 2 ^ nat ?b"
      by simp_all
    from n have b: "1 \<le> ?b" by (auto simp: bitlen_alt_def)
    have il: "ilog2 x = ?b - 1" using True by (simp add: ilog2_def)
    have "(2::rat) powi (?b - 1) = of_int (2 ^ nat (?b - 1))"
      using b by (simp add: power_int_def)
    also have "\<dots> \<le> of_int ?n" using lo by (simp only: of_int_le_iff)
    also have "\<dots> \<le> x" by (rule of_int_floor_le)
    finally have 1: "2 powi (?b - 1) \<le> x" .
    from hi have "?n + 1 \<le> 2 ^ nat ?b" by simp
    then have le: "(of_int (?n + 1) :: rat) \<le> of_int (2 ^ nat ?b)" by (simp only: of_int_le_iff)
    have "x < of_int (?n + 1)" by linarith
    then have "x < of_int (2 ^ nat ?b)" using le by (rule less_le_trans)
    also have "\<dots> = 2 powi ?b" using b by (simp add: power_int_def)
    finally have 2: "x < 2 powi ?b" .
    from 1 2 show ?thesis by (simp add: il)
  next
    case False
    then have x1: "x < 1" by simp
    let ?y = "1 / x"
    let ?m = "\<lceil>?y\<rceil> - 1"
    let ?q = "bitlen ?m"
    from assms x1 have y: "1 < ?y" by simp
    then have m: "0 < ?m" by (simp add: less_ceiling_iff)
    from bitlen_bounds [OF m] have lo: "2 ^ nat (?q - 1) \<le> ?m" and hi: "?m < 2 ^ nat ?q"
      by simp_all
    from m have q: "1 \<le> ?q" by (auto simp: bitlen_alt_def)
    have il: "ilog2 x = - ?q" using False by (simp add: ilog2_def)
    from hi have "\<lceil>?y\<rceil> \<le> 2 ^ nat ?q" by simp
    then have "(of_int \<lceil>?y\<rceil> :: rat) \<le> 2 ^ nat ?q" by simp
    with le_of_int_ceiling [of ?y] have "?y \<le> 2 ^ nat ?q" by (rule order_trans)
    with assms have "1 / 2 ^ nat ?q \<le> x"
      by (simp add: field_simps)
    moreover have "(2::rat) powi (- ?q) = 1 / 2 ^ nat ?q"
      using q by (simp add: power_int_def field_simps)
    ultimately have 1: "2 powi (- ?q) \<le> x" by simp
    have pw: "(of_int (2 ^ nat (?q - 1)) :: rat) = 2 ^ nat (?q - 1)" by simp
    from lo have "(of_int (2 ^ nat (?q - 1)) :: rat) \<le> of_int ?m" by (simp only: of_int_le_iff)
    then have "(2::rat) ^ nat (?q - 1) \<le> of_int ?m" by (simp only: pw)
    moreover have "of_int ?m < ?y" by linarith
    ultimately have "2 ^ nat (?q - 1) < ?y" by (rule le_less_trans)
    with assms have "x < 1 / 2 ^ nat (?q - 1)"
      by (simp add: field_simps)
    moreover have "(2::rat) powi (- ?q + 1) = 1 / 2 ^ nat (?q - 1)"
    proof -
      from q have "- ?q + 1 = - int (nat (?q - 1))" by simp
      then show ?thesis by (simp only: power_int_minus_divide power_int_of_nat)
    qed
    ultimately have 2: "x < 2 powi (- ?q + 1)" by simp
    from 1 2 show ?thesis by (simp add: il)
  qed
  then show "2 powi ilog2 x \<le> x" and "x < 2 powi (ilog2 x + 1)" by simp_all
qed

text \<open>Rounding to a double moves a number by at most half the weight of its last bit.\<close>

lemma to_float_error:
  assumes "x \<noteq> 0"
  shows "\<bar>to_float x - x\<bar> \<le> 2 powi (max (ilog2 \<bar>x\<bar> - 52) (- 1074)) / 2"
proof -
  let ?P = "(2::rat) powi (max (ilog2 \<bar>x\<bar> - 52) (- 1074))"
  have P: "0 < ?P" by simp
  have "to_float x - x = (of_int (round_half_even (x / ?P)) - x / ?P) * ?P"
    using assms P by (simp add: to_float_def Let_def algebra_simps)
  then have "\<bar>to_float x - x\<bar> = \<bar>of_int (round_half_even (x / ?P)) - x / ?P\<bar> * ?P"
    using P by (simp add: abs_mult)
  also have "\<dots> \<le> 1 / 2 * ?P"
    using round_half_even_error [of "x / ?P"] P by (intro mult_right_mono) simp_all
  finally show ?thesis by simp
qed

lemma bitlen_one: "bitlen 1 = 1"
  by (simp add: bitlen_alt_def)

lemma ilog2_le_0: "0 < x \<Longrightarrow> x \<le> 1 \<Longrightarrow> ilog2 x \<le> 0"
  using bitlen_nonneg [of "\<lceil>1 / x\<rceil> - 1"]
  by (cases "x = 1") (simp_all add: ilog2_def bitlen_one)

lemma to_float_error_unit:
  assumes "0 \<le> x" and "x \<le> 1"
  shows "\<bar>to_float x - x\<bar> \<le> 1 / 2 ^ 53"
proof (cases "x = 0")
  case True
  then show ?thesis by (simp add: to_float_def)
next
  case False
  with assms have pos: "0 < x" by simp
  let ?e = "max (ilog2 \<bar>x\<bar> - 52) (- 1074)"
  from ilog2_le_0 [OF pos assms(2)] pos have "?e \<le> - 52" by simp
  then have "(2::rat) powi ?e \<le> 2 powi (- 52)"
    by (intro power_int_increasing) simp_all
  also have "\<dots> = 1 / 2 ^ 52" by (simp add: power_int_minus_divide)
  finally have "(2::rat) powi ?e / 2 \<le> 1 / 2 ^ 53" by simp
  with to_float_error [OF False] show ?thesis by linarith
qed

lemma to_float_nonneg: "0 \<le> x \<Longrightarrow> 0 \<le> to_float x"
  by (simp add: to_float_def Let_def round_half_even_nonneg)

text \<open>
  On the hundredths between 0 and 1 the rounding to a double keeps the order: two
  different hundredths are much further apart than the rounding moves them.
\<close>

lemma to_float_hundredths_less:
  assumes "0 \<le> j" and "j < k" and "k \<le> 100"
  shows "to_float (of_int j / 100) < to_float (of_int k / 100)"
proof -
  from assms have "j + 1 \<le> k" by simp
  then have "(of_int (j + 1) :: rat) \<le> of_int k" by (simp only: of_int_le_iff)
  then have gap: "(of_int j :: rat) / 100 + 1 / 100 \<le> of_int k / 100" by simp
  from assms have j: "(0::rat) \<le> of_int j / 100" "(of_int j :: rat) / 100 \<le> 1" by simp_all
  from assms have k: "(0::rat) \<le> of_int k / 100" "(of_int k :: rat) / 100 \<le> 1" by simp_all
  from to_float_error_unit [OF j] have "to_float (of_int j / 100) \<le> of_int j / 100 + 1 / 2 ^ 53"
    by linarith
  moreover from to_float_error_unit [OF k]
  have "of_int k / 100 - 1 / 2 ^ 53 \<le> to_float (of_int k / 100)"
    by linarith
  moreover have "(1::rat) / 2 ^ 53 + 1 / 2 ^ 53 < 1 / 100" by simp
  ultimately show ?thesis using gap by linarith
qed

lemma to_float_hundredths_less_iff:
  assumes "0 \<le> j" and "j \<le> 100" and "0 \<le> k" and "k \<le> 100"
  shows "to_float (of_int j / 100) < to_float (of_int k / 100) \<longleftrightarrow> j < k"
proof (cases j k rule: linorder_cases)
  case less
  with to_float_hundredths_less [of j k] assms show ?thesis by simp
next
  case equal
  then show ?thesis by simp
next
  case greater
  with to_float_hundredths_less [of k j] assms show ?thesis by simp
qed

text \<open>
  A draw from \<open>[0, 1)\<close> gives, after the three float operations of \<open>uniform\<close>, a number
  whose hundredfold rounds to an integer from 10 to 90: the score is one of the doubles
  0.10, 0.11, ..., 0.90.
\<close>

lemma uniform_bounds:
  assumes "0 \<le> r" and "r < 1"
  shows "19 / 200 < uniform (to_float (1 / 10)) (to_float (9 / 10)) r"
    and "uniform (to_float (1 / 10)) (to_float (9 / 10)) r < 181 / 200"
proof -
  define eps where "eps = (1::rat) / 2 ^ 53"
  have eps: "0 < eps" "eps < 1 / 10000" by (simp_all add: eps_def)
  note err = to_float_error_unit [folded eps_def]
  let ?a = "to_float (1 / 10)"
  let ?b = "to_float (9 / 10)"
  let ?w = "to_float (?b - ?a)"
  let ?v = "to_float (?w * r)"
  have a: "\<bar>?a - 1 / 10\<bar> \<le> eps" by (rule err) simp_all
  have b: "\<bar>?b - 9 / 10\<bar> \<le> eps" by (rule err) simp_all
  from a b eps have d0: "0 \<le> ?b - ?a" and d1: "?b - ?a \<le> 1" by linarith+
  have w: "\<bar>?w - (?b - ?a)\<bar> \<le> eps" using d0 d1 by (rule err)
  have w0: "0 \<le> ?w" using d0 by (rule to_float_nonneg)
  from w0 assms have p0: "0 \<le> ?w * r" by simp
  from w0 assms have "?w * r \<le> ?w * 1" by (intro mult_left_mono) simp_all
  then have p1: "?w * r \<le> ?w" by simp
  from p1 w a b eps have p2: "?w * r \<le> 1" by linarith
  have v: "\<bar>?v - ?w * r\<bar> \<le> eps" using p0 p2 by (rule err)
  have v0: "0 \<le> ?v" using p0 by (rule to_float_nonneg)
  from a v0 eps have s0: "0 \<le> ?a + ?v" by linarith
  from a b w v p1 eps have s1: "?a + ?v \<le> 1" by linarith
  have u: "\<bar>to_float (?a + ?v) - (?a + ?v)\<bar> \<le> eps" using s0 s1 by (rule err)
  have unfold: "uniform ?a ?b r = to_float (?a + ?v)" by (simp only: uniform_def)
  from u a v0 eps show "19 / 200 < uniform ?a ?b r" unfolding unfold by linarith
  from u a b w v p1 eps show "uniform ?a ?b r < 181 / 200" unfolding unfold by linarith
qed

lemma score_hundredths:
  assumes "0 \<le> r" and "r < 1"
  shows "10 \<le> round_half_even (uniform (to_float (1 / 10)) (to_float (9 / 10)) r * 10 ^ 2)"
    and "round_half_even (uniform (to_float (1 / 10)) (to_float (9 / 10)) r * 10 ^ 2) \<le> 90"
proof -
  let ?u = "uniform (to_float (1 / 10)) (to_float (9 / 10)) r"
  from uniform_bounds [OF assms]
  have lo: "of_int 10 - 1 / 2 < ?u * 10 ^ 2" and hi: "?u * 10 ^ 2 < of_int 90 + 1 / 2"
    by simp_all
  show "10 \<le> round_half_even (?u * 10 ^ 2)" by (rule round_half_even_lower [OF lo])
  show "round_half_even (?u * 10 ^ 2) \<le> 90" by (rule round_half_even_upper [OF hi])
qed

lemma score_eq_hundredths:
  "round_py x 2 = to_float (of_int (round_half_even (x * 10 ^ 2)) / 100)"
  by (simp add: round_py_def)

lemma to_float_tenth_le:
  assumes "10 \<le> k" and "k \<le> 100"
  shows "to_float (1 / 10) \<le> to_float (of_int k / 100)"
proof (cases "k = 10")
  case True
  then show ?thesis by simp
next
  case False
  with assms have "10 < k" by simp
  from to_float_hundredths_less [OF _ this assms(2)] show ?thesis by simp
qed

lemma to_float_le_nine_tenths:
  assumes "0 \<le> k" and "k \<le> 90"
  shows "to_float (of_int k / 100) \<le> to_float (9 / 10)"
proof (cases "k = 90")
  case True
  then show ?thesis by simp
next
  case False
  with assms have "k < 90" by simp
  from to_float_hundredths_less [OF assms(1) this] show ?thesis by simp
qed

lemma thresholds_ordered: "to_float (3 / 10) < to_float (7 / 10)"
  using to_float_hundredths_less [of 30 70] by simp

subsection \<open>Lookup, assessment and creation, step by step\<close>

lemma lookup_facility_None:
  "lookup_facility fid s = None \<longleftrightarrow> Some fid \<notin> id_field ` set (facilities_db s)"
  by (force simp: lookup_facility_def find_None_iff image_iff)

lemma perform_risk_assessment_Inr:
  assumes "perform_risk_assessment fid u r now s = Inr (a, s')"
  shows "a = \<lparr>facility_id = fid,
               risk_score = round_py (uniform (to_float (1 / 10)) (to_float (9 / 10)) r) 2,
               risk_level =
                 fst (risk_tier (round_py (uniform (to_float (1 / 10)) (to_float (9 / 10)) r) 2)),
               recommendations =
                 snd (risk_tier (round_py (uniform (to_float (1 / 10)) (to_float (9 / 10)) r) 2)),
               timestamp = now\<rparr>"
    and "s' = s\<lparr>risk_assessments_db := risk_assessments_db s @ [a]\<rparr>"
    and "lookup_facility fid s \<noteq> None"
  using assms
  by (auto simp: perform_risk_assessment_def Let_def split: option.splits prod.splits)

text \<open>
  A run of creations from any store: the store grows by the returned records, the counter
  by their number, and the identifiers are the counter's successive values.
\<close>

lemma create_facilities_append:
  "create_facilities reqs s = (fs, s') \<Longrightarrow>
     facilities_db s' = facilities_db s @ fs
   \<and> facility_counter s' = facility_counter s + int (length reqs)
   \<and> risk_assessments_db s' = risk_assessments_db s
   \<and> map id_field fs = map Some [facility_counter s .. facility_counter s + int (length reqs) - 1]
   \<and> map (\<lambda>f. f\<lparr>id_field := None\<rparr>) fs = map (\<lambda>(f, u). f\<lparr>id_field := None\<rparr>) reqs"
proof (induction reqs arbitrary: s fs s')
  case Nil
  then show ?case by simp
next
  case (Cons req reqs)
  obtain facility u where req: "req = (facility, u)" by (cases req)
  obtain created s1 where c: "create_facility facility u s = (created, s1)" by force
  obtain rest s2 where r: "create_facilities reqs s1 = (rest, s2)" by force
  from Cons.prems req c r have fs: "fs = created # rest" and s': "s' = s2" by simp_all
  from c have created: "created = facility\<lparr>id_field := Some (facility_counter s)\<rparr>"
    and s1: "s1 = s\<lparr>facility_counter := facility_counter s + 1,
                      facilities_db := facilities_db s @ [created]\<rparr>"
    by (auto simp: create_facility_def Let_def)
  note ih = Cons.IH [OF r]
  have up: "[facility_counter s .. facility_counter s + int (length (req # reqs)) - 1] =
      facility_counter s # [facility_counter s1 .. facility_counter s1 + int (length reqs) - 1]"
    by (simp add: s1 upto_rec1 [of "facility_counter s"] add.commute add.left_commute)
  show ?case
    unfolding up using ih by (simp add: fs s' s1 created req)
qed

lemma ids_strictly_increasing:
  "map id_field fs = map Some ids \<Longrightarrow> sorted_wrt (<) ids \<Longrightarrow>
     sorted_wrt (\<lambda>f g. \<exists>i j. id_field f = Some i \<and> id_field g = Some j \<and> i < j) fs"
proof (induction fs arbitrary: ids)
  case Nil
  then show ?case by simp
next
  case (Cons f fs)
  then obtain i rest where ids: "ids = i # rest" by (cases ids) auto
  from Cons.prems ids have f: "id_field f = Some i" and m: "map id_field fs = map Some rest"
    and lt: "\<forall>j \<in> set rest. i < j" and srt: "sorted_wrt (<) rest"
    by auto
  have "\<exists>j. id_field g = Some j \<and> i < j" if "g \<in> set fs" for g
  proof -
    from that have "id_field g \<in> set (map id_field fs)" by simp
    with m have "id_field g \<in> Some ` set rest" by simp
    with lt show ?thesis by auto
  qed
  with f Cons.IH [OF m srt] show ?case by auto
qed

lemma one_facility_store_eq:
  "one_facility_store =
     \<lparr>facilities_db = [demo_facility\<lparr>id_field := Some 1\<rparr>], risk_assessments_db = [],
      facility_counter = 2\<rparr>"
  by (simp add: one_facility_store_def create_facility_def initial_store_def Let_def)

text \<open>
  The scores of the sample draws, computed. The draw 0.24375 gives the sum
  0.29500000000000004, just above the tie, and so the score 0.3.
\<close>

lemma low_score:
  "round_py (uniform (to_float (1 / 10)) (to_float (9 / 10)) 0) 2 = to_float (1 / 10)"
  by code_simp

lemma medium_score:
  "round_py (uniform (to_float (1 / 10)) (to_float (9 / 10)) (1 / 2)) 2 = 1 / 2"
  by code_simp

lemma boundary_sum:
  "uniform (to_float (1 / 10)) (to_float (9 / 10)) (8782019273372467 / 36028797018963968) =
     2657123780148593 / 9007199254740992"
  by code_simp

lemma boundary_score:
  "round_py (uniform (to_float (1 / 10)) (to_float (9 / 10))
     (8782019273372467 / 36028797018963968)) 2 = to_float (3 / 10)"
  by code_simp

lemma high_score:
  "round_py (uniform (to_float (1 / 10)) (to_float (9 / 10)) (99 / 100)) 2 = to_float (89 / 100)"
  by code_simp

lemma low_tier:
  "risk_tier (to_float (1 / 10)) =
     (''Low'', [''Continue regular monitoring'', ''Maintain current safety protocols''])"
  by code_simp

lemma medium_tier:
  "risk_tier (1 / 2) =
     (''Medium'',
      [''Increase monitoring frequency'', ''Review safety procedures'',
       ''Consider additional safety measures''])"
  by code_simp

lemma boundary_tier:
  "risk_tier (to_float (3 / 10)) =
     (''Medium'',
      [''Increase monitoring frequency'', ''Review safety procedures'',
       ''Consider additional safety measures''])"
  by code_simp

lemma high_tier:
  "risk_tier (to_float (89 / 100)) =
     (''High'',
      [''Immediate safety review required'', ''Increase monitoring to daily'',
       ''Consider emergency response planning'', ''Consult with safety experts''])"
  by code_simp

lemma assessment_of_found:
  "lookup_facility fid s = Some f \<Longrightarrow>
   round_py (uniform (to_float (1 / 10)) (to_float (9 / 10)) r) 2 = score \<Longrightarrow>
   risk_tier score = (level, recs) \<Longrightarrow>
   perform_risk_assessment fid u r now s =
     Inr (\<lparr>facility_id = fid, risk_score = score, risk_level = level,
            recommendations = recs, timestamp = now\<rparr>,
          s\<lparr>risk_assessments_db := risk_assessments_db s @
             [\<lparr>facility_id = fid, risk_score = score, risk_level = level,
               recommendations = recs, timestamp = now\<rparr>]\<rparr>)"
  by (simp add: perform_risk_assessment_def Let_def)

lemma lookup_one_facility:
  "lookup_facility 1 one_facility_store = Some (demo_facility\<lparr>id_field := Some 1\<rparr>)"
  by (simp add: lookup_facility_def one_facility_store_eq)

lemma one_facility_log: "risk_assessments_db one_facility_store = []"
  by (simp add: one_facility_store_eq)

lemma low_run:
  "perform_risk_assessment 1 ''demo'' 0 1000 one_facility_store =
     Inr (low_assessment, one_facility_store\<lparr>risk_assessments_db := [low_assessment]\<rparr>)"
  using assessment_of_found [OF lookup_one_facility low_score low_tier, of "''demo''" 1000]
  by (simp add: low_assessment_def one_facility_log)

lemma medium_run:
  "perform_risk_assessment 1 ''demo'' (1 / 2) 1000 one_facility_store =
     Inr (medium_assessment, one_facility_store\<lparr>risk_assessments_db := [medium_assessment]\<rparr>)"
  using assessment_of_found [OF lookup_one_facility medium_score medium_tier, of "''demo''" 1000]
  by (simp add: medium_assessment_def one_facility_log)

lemma boundary_run:
  "perform_risk_assessment 1 ''demo'' (8782019273372467 / 36028797018963968) 1000
     one_facility_store =
     Inr (boundary_assessment,
          one_facility_store\<lparr>risk_assessments_db := [boundary_assessment]\<rparr>)"
  using assessment_of_found [OF lookup_one_facility boundary_score boundary_tier,
      of "''demo''" 1000]
  by (simp add: boundary_assessment_def one_facility_log)

lemma high_run:
  "perform_risk_assessment 1 ''demo'' (99 / 100) 1000 one_facility_store =
     Inr (high_assessment, one_facility_store\<lparr>risk_assessments_db := [high_assessment]\<rparr>)"
  using assessment_of_found [OF lookup_one_facility high_score high_tier, of "''demo''" 1000]
  by (simp add: high_assessment_def one_facility_log)

subsection \<open>Facility store\<close>

text \<open>
  C3. Any run of N creations from the initial store assigns the identifiers 1, 2, ..., N
  in the order of the requests: they are pairwise distinct and strictly increasing, the
  k-th record is the k-th request body under its identifier, and listing the facilities
  afterwards returns exactly these N records in that order.
\<close>

theorem creations_assign_sequential_ids:
  "map id_field (fst (create_facilities reqs initial_store)) = map Some [1 .. int (length reqs)]
   \<and> distinct (map id_field (fst (create_facilities reqs initial_store)))
   \<and> sorted_wrt (\<lambda>f g. \<exists>i j. id_field f = Some i \<and> id_field g = Some j \<and> i < j)
        (fst (create_facilities reqs initial_store))
   \<and> map (\<lambda>f. f\<lparr>id_field := None\<rparr>) (fst (create_facilities reqs initial_store)) =
        map (\<lambda>(f, u). f\<lparr>id_field := None\<rparr>) reqs
   \<and> get_facilities current_user (snd (create_facilities reqs initial_store)) =
        fst (create_facilities reqs initial_store)"
proof -
  obtain fs s' where run: "create_facilities reqs initial_store = (fs, s')" by force
  note gen = create_facilities_append [OF run]
  have ids: "map id_field fs = map Some [1 .. int (length reqs)]"
    using gen by (simp add: initial_store_def)
  have "distinct (map Some [1 .. int (length reqs)])"
    by (simp add: distinct_map)
  with ids have dist: "distinct (map id_field fs)" by simp
  have "sorted_wrt (<) [1 .. int (length reqs)]"
    by (simp add: strict_sorted_iff)
  with ids have inc: "sorted_wrt (\<lambda>f g. \<exists>i j. id_field f = Some i \<and> id_field g = Some j \<and> i < j) fs"
    by (rule ids_strictly_increasing)
  have order: "map (\<lambda>f. f\<lparr>id_field := None\<rparr>) fs = map (\<lambda>(f, u). f\<lparr>id_field := None\<rparr>) reqs"
    using gen by simp
  have listing: "get_facilities current_user s' = fs"
    using gen by (simp add: get_facilities_def initial_store_def)
  from ids dist inc order listing show ?thesis by (simp add: run)
qed

text \<open>
  C4. When no stored facility has the identifier asked for, both the lookup route and the
  assessment route raise the 404 exception "Facility not found"; when one has, the lookup
  route returns a facility and the assessment route an assessment.
\<close>

theorem unknown_facility_not_found:
  "(Some fid \<notin> id_field ` set (facilities_db s) \<longrightarrow>
      get_facility fid current_user s = Inl not_found
    \<and> perform_risk_assessment fid current_user r now s = Inl not_found
    \<and> status_code not_found = 404)
   \<and> (Some fid \<in> id_field ` set (facilities_db s) \<longrightarrow>
      (\<exists>f. get_facility fid current_user s = Inr f)
    \<and> (\<exists>a s'. perform_risk_assessment fid current_user r now s = Inr (a, s')))"
proof (cases "lookup_facility fid s")
  case None
  then have "Some fid \<notin> id_field ` set (facilities_db s)" by (simp add: lookup_facility_None)
  with None show ?thesis
    by (simp add: get_facility_def perform_risk_assessment_def not_found_def)
next
  case (Some f)
  then have "Some fid \<in> id_field ` set (facilities_db s)"
    using lookup_facility_None [of fid s] by simp
  with Some show ?thesis
    by (simp add: get_facility_def perform_risk_assessment_def Let_def split: prod.splits)
qed

theorem unknown_facility_not_found_witness:
  "Some 999 \<notin> id_field ` set (facilities_db one_facility_store)
   \<and> get_facility 999 ''demo'' one_facility_store = Inl not_found
   \<and> perform_risk_assessment 999 ''demo'' (1 / 2) 1000 one_facility_store = Inl not_found
   \<and> Some 1 \<in> id_field ` set (facilities_db one_facility_store)
   \<and> (\<exists>f. get_facility 1 ''demo'' one_facility_store = Inr f)
   \<and> (\<exists>a s'. perform_risk_assessment 1 ''demo'' (1 / 2) 1000 one_facility_store = Inr (a, s'))"
proof -
  have absent: "Some 999 \<notin> id_field ` set (facilities_db one_facility_store)"
    and present: "Some 1 \<in> id_field ` set (facilities_db one_facility_store)"
    by (simp_all add: one_facility_store_eq)
  from absent present
    unknown_facility_not_found [of 999 one_facility_store "''demo''" "1 / 2" 1000]
    unknown_facility_not_found [of 1 one_facility_store "''demo''" "1 / 2" 1000]
  show ?thesis by blast
qed

text \<open>
  C9. A creation request stores and returns the record under the current value of the
  counter, whatever identifier the request body carried: two bodies that differ in their
  \<open>id\<close> only (absent, or any integer) have the same outcome.
\<close>

theorem create_facility_ignores_client_id:
  "create_facility (facility\<lparr>id_field := client_id\<rparr>) current_user s =
     create_facility (facility\<lparr>id_field := other_id\<rparr>) current_user s
   \<and> id_field (fst (create_facility (facility\<lparr>id_field := client_id\<rparr>) current_user s)) =
       Some (facility_counter s)
   \<and> facilities_db (snd (create_facility (facility\<lparr>id_field := client_id\<rparr>) current_user s)) =
       facilities_db s @ [facility\<lparr>id_field := Some (facility_counter s)\<rparr>]
   \<and> fst (create_facility (facility\<lparr>id_field := client_id\<rparr>) current_user s) =
       facility\<lparr>id_field := Some (facility_counter s)\<rparr>"
  by (simp add: create_facility_def Let_def)

text \<open>
  C10. None of the four facility handlers uses the authenticated user name: on the same
  store and the same request, two user names give the same response and the same new
  store.
\<close>

theorem handlers_ignore_current_user:
  "get_facilities user1 s = get_facilities user2 s
   \<and> create_facility facility user1 s = create_facility facility user2 s
   \<and> get_facility fid user1 s = get_facility fid user2 s
   \<and> perform_risk_assessment fid user1 r now s = perform_risk_assessment fid user2 r now s"
  by (simp add: get_facilities_def create_facility_def get_facility_def
      perform_risk_assessment_def)

subsection \<open>Risk assessment\<close>

text \<open>
  C2. Whatever the generator draws from \<open>[0, 1)\<close>, the assessment that the handler
  returns has a score between 0.1 and 0.9, both included: it is one of the two-decimal
  floats 0.10, 0.11, ..., 0.90. Its level and recommendations are those of the score's
  tier: Low below 0.3, Medium from 0.3 and below 0.7, High from 0.7. The bounds and the
  thresholds are the floats that these literals denote.
\<close>

theorem assessment_score_and_level:
  assumes "0 \<le> r" and "r < 1"
    and "perform_risk_assessment fid current_user r now s = Inr (a, s')"
  shows "to_float (1 / 10) \<le> risk_score a \<and> risk_score a \<le> to_float (9 / 10)
       \<and> (\<exists>k. 10 \<le> k \<and> k \<le> 90 \<and> risk_score a = to_float (of_int k / 100))
       \<and> (risk_level a, recommendations a) = risk_tier (risk_score a)
       \<and> (risk_score a < to_float (3 / 10) \<longrightarrow>
            risk_level a = ''Low''
          \<and> recommendations a =
              [''Continue regular monitoring'', ''Maintain current safety protocols''])
       \<and> (to_float (3 / 10) \<le> risk_score a \<and> risk_score a < to_float (7 / 10) \<longrightarrow>
            risk_level a = ''Medium''
          \<and> recommendations a =
              [''Increase monitoring frequency'', ''Review safety procedures'',
               ''Consider additional safety measures''])
       \<and> (to_float (7 / 10) \<le> risk_score a \<longrightarrow>
            risk_level a = ''High''
          \<and> recommendations a =
              [''Immediate safety review required'', ''Increase monitoring to daily'',
               ''Consider emergency response planning'', ''Consult with safety experts''])"
proof -
  let ?u = "uniform (to_float (1 / 10)) (to_float (9 / 10)) r"
  let ?k = "round_half_even (?u * 10 ^ 2)"
  let ?score = "round_py ?u 2"
  from perform_risk_assessment_Inr(1) [OF assms(3)]
  have score: "risk_score a = ?score"
    and level: "risk_level a = fst (risk_tier ?score)"
    and recs: "recommendations a = snd (risk_tier ?score)"
    by simp_all
  from score_hundredths [OF assms(1,2)] have k: "10 \<le> ?k" "?k \<le> 90" by simp_all
  have hundredth: "risk_score a = to_float (of_int ?k / 100)"
    unfolding score by (rule score_eq_hundredths)
  have lower: "to_float (1 / 10) \<le> risk_score a"
    unfolding hundredth using k by (intro to_float_tenth_le) simp_all
  have upper: "risk_score a \<le> to_float (9 / 10)"
    unfolding hundredth using k by (intro to_float_le_nine_tenths) simp_all
  from k hundredth
  have decimal: "\<exists>k. 10 \<le> k \<and> k \<le> 90 \<and> risk_score a = to_float (of_int k / 100)"
    by blast
  have tier: "(risk_level a, recommendations a) = risk_tier (risk_score a)"
    by (simp add: score level recs)
  have low: "risk_score a < to_float (3 / 10) \<longrightarrow>
            risk_level a = ''Low''
          \<and> recommendations a =
              [''Continue regular monitoring'', ''Maintain current safety protocols'']"
    unfolding level recs score [symmetric] by (simp add: risk_tier_def)
  have medium: "to_float (3 / 10) \<le> risk_score a \<and> risk_score a < to_float (7 / 10) \<longrightarrow>
            risk_level a = ''Medium''
          \<and> recommendations a =
              [''Increase monitoring frequency'', ''Review safety procedures'',
               ''Consider additional safety measures'']"
    unfolding level recs score [symmetric] by (simp add: risk_tier_def)
  have high: "to_float (7 / 10) \<le> risk_score a \<longrightarrow>
            risk_level a = ''High''
          \<and> recommendations a =
              [''Immediate safety review required'', ''Increase monitoring to daily'',
               ''Consider emergency response planning'', ''Consult with safety experts'']"
    unfolding level recs score [symmetric] using thresholds_ordered by (simp add: risk_tier_def)
  from lower upper decimal tier low medium high show ?thesis by blast
qed

theorem assessment_score_and_level_witness:
  "perform_risk_assessment 1 ''demo'' 0 1000 one_facility_store =
       Inr (low_assessment, one_facility_store\<lparr>risk_assessments_db := [low_assessment]\<rparr>)
   \<and> risk_score low_assessment = to_float (1 / 10) \<and> risk_level low_assessment = ''Low''
   \<and> perform_risk_assessment 1 ''demo'' (1 / 2) 1000 one_facility_store =
       Inr (medium_assessment, one_facility_store\<lparr>risk_assessments_db := [medium_assessment]\<rparr>)
   \<and> risk_score medium_assessment = 1 / 2 \<and> risk_level medium_assessment = ''Medium''
   \<and> perform_risk_assessment 1 ''demo'' (8782019273372467 / 36028797018963968) 1000
         one_facility_store =
       Inr (boundary_assessment,
            one_facility_store\<lparr>risk_assessments_db := [boundary_assessment]\<rparr>)
   \<and> risk_score boundary_assessment = to_float (3 / 10)
   \<and> risk_level boundary_assessment = ''Medium''
   \<and> perform_risk_assessment 1 ''demo'' (99 / 100) 1000 one_facility_store =
       Inr (high_assessment, one_facility_store\<lparr>risk_assessments_db := [high_assessment]\<rparr>)
   \<and> risk_score high_assessment = to_float (89 / 100) \<and> risk_level high_assessment = ''High''"
proof -
  have low: "risk_score low_assessment = to_float (1 / 10)"
    and medium: "risk_score medium_assessment = 1 / 2"
    and boundary: "risk_score boundary_assessment = to_float (3 / 10)"
    and high: "risk_score high_assessment = to_float (89 / 100)"
    by (simp_all add: low_assessment_def medium_assessment_def boundary_assessment_def
        high_assessment_def)
  have draws: "(0::rat) \<le> 0" "(0::rat) < 1" "(0::rat) \<le> 1 / 2" "(1 / 2 :: rat) < 1"
    "(0::rat) \<le> 8782019273372467 / 36028797018963968"
    "(8782019273372467 / 36028797018963968 :: rat) < 1"
    "(0::rat) \<le> 99 / 100" "(99 / 100 :: rat) < 1"
    by simp_all
  from assessment_score_and_level [OF draws(1,2) low_run]
  have "(risk_level low_assessment, recommendations low_assessment) =
      risk_tier (risk_score low_assessment)" by blast
  then have 1: "risk_level low_assessment = ''Low''"
    by (simp add: low low_tier)
  from assessment_score_and_level [OF draws(3,4) medium_run]
  have "(risk_level medium_assessment, recommendations medium_assessment) =
      risk_tier (risk_score medium_assessment)" by blast
  then have 2: "risk_level medium_assessment = ''Medium''"
    by (simp add: medium medium_tier)
  from assessment_score_and_level [OF draws(5,6) boundary_run]
  have "(risk_level boundary_assessment, recommendations boundary_assessment) =
      risk_tier (risk_score boundary_assessment)" by blast
  then have 3: "risk_level boundary_assessment = ''Medium''"
    by (simp add: boundary boundary_tier)
  from assessment_score_and_level [OF draws(7,8) high_run]
  have "(risk_level high_assessment, recommendations high_assessment) =
      risk_tier (risk_score high_assessment)" by blast
  then have 4: "risk_level high_assessment = ''High''"
    by (simp add: high high_tier)
  from 1 2 3 4 low medium boundary high low_run medium_run boundary_run high_run
  show ?thesis by simp
qed

text \<open>
  C8. A successful assessment appends exactly one record to the end of the assessment
  log, the record it returns; that record carries the clock reading and the identifier
  asked for. The earlier entries of the log, the facility list and the counter stay as
  they were.
\<close>

theorem assessment_appends_one_record:
  assumes "perform_risk_assessment fid current_user r now s = Inr (a, s')"
  shows "risk_assessments_db s' = risk_assessments_db s @ [a]
       \<and> timestamp a = now
       \<and> facility_id a = fid
       \<and> facilities_db s' = facilities_db s
       \<and> facility_counter s' = facility_counter s"
  using perform_risk_assessment_Inr [OF assms] by simp

theorem assessment_appends_one_record_witness:
  "perform_risk_assessment 1 ''demo'' (1 / 2) 1000 one_facility_store =
       Inr (medium_assessment, one_facility_store\<lparr>risk_assessments_db := [medium_assessment]\<rparr>)
   \<and> risk_assessments_db (one_facility_store\<lparr>risk_assessments_db := [medium_assessment]\<rparr>) =
       risk_assessments_db one_facility_store @ [medium_assessment]
   \<and> timestamp medium_assessment = 1000
   \<and> facility_id medium_assessment = 1"
  using assessment_appends_one_record [OF medium_run] medium_run by simp

subsection \<open>Tokens\<close>

lemma create_access_token_eq:
  "create_access_token k data delta now =
     Signed ALGORITHM
       (data\<lparr>exp_claim := Some (case delta of
                                  Some d \<Rightarrow> if d \<noteq> 0 then now + d else now + minutes 15
                                | None \<Rightarrow> now + minutes 15)\<rparr>) k"
  by (simp add: create_access_token_def jwt_encode_def Let_def)

text \<open>A zero duration is falsy, so it gives the default of 15 minutes as well.\<close>

lemma create_access_token_zero_delta:
  "create_access_token k data (Some 0) now = create_access_token k data None now"
  by (simp add: create_access_token_eq)

lemma login_Inr:
  assumes "login k form now = Inr tok"
  shows "username form = ''demo''" and "password form = ''demo''"
    and "access_token tok =
           Signed ALGORITHM
             \<lparr>sub_claim = Some ''demo'', exp_claim = Some (now + 30 * 60), nbf_claim = None,
              iat_claim = None, aud_claim = None\<rparr> k"
    and "token_type tok = ''bearer''"
  using assms
  by (auto simp: login_def create_access_token_eq minutes_def ACCESS_TOKEN_EXPIRE_MINUTES_def
      Let_def split: if_splits)

lemma login_demo:
  "login k \<lparr>username = ''demo'', password = ''demo''\<rparr> now =
     Inr \<lparr>access_token =
            Signed ALGORITHM
              \<lparr>sub_claim = Some ''demo'', exp_claim = Some (now + 30 * 60), nbf_claim = None,
               iat_claim = None, aud_claim = None\<rparr> k,
          token_type = ''bearer''\<rparr>"
  by (simp add: login_def create_access_token_eq minutes_def ACCESS_TOKEN_EXPIRE_MINUTES_def
      Let_def)

lemma verify_token_Signed:
  "verify_token k (Signed a p k') t =
     (if a \<noteq> ALGORITHM \<or> k' \<noteq> k
         \<or> (case iat_claim p of Some i \<Rightarrow> t < i | None \<Rightarrow> False)
         \<or> (case nbf_claim p of Some n \<Rightarrow> t < n | None \<Rightarrow> False)
         \<or> (case exp_claim p of Some e \<Rightarrow> e \<le> t | None \<Rightarrow> False)
         \<or> (case aud_claim p of Some (x # xs) \<Rightarrow> True | _ \<Rightarrow> False)
      then Inl credentials_exception
      else case sub_claim p of None \<Rightarrow> Inl credentials_exception | Some u \<Rightarrow> Inr u)"
  by (simp add: verify_token_def jwt_decode_def)

lemma verify_token_Malformed: "verify_token k (Malformed x) t = Inl credentials_exception"
  by (simp add: verify_token_def jwt_decode_def)

lemma demo_login:
  "login default_key demo_form 1000 = Inr \<lparr>access_token = demo_token, token_type = ''bearer''\<rparr>"
  by (simp add: demo_form_def demo_token_def login_demo ALGORITHM_def)

text \<open>
  C1. With user name and password both \<open>demo\<close>, login returns a token, and verifying that
  token under the same key at any instant before its expiry (30 minutes after the login)
  gives the user name \<open>demo\<close>. With any other pair, login raises the 401 exception whose
  headers are the challenge \<open>WWW-Authenticate: Bearer\<close>.
\<close>

theorem login_issues_verifiable_token:
  "(username form = ''demo'' \<and> password form = ''demo'' \<longrightarrow>
      (\<exists>tok. login k form now = Inr tok
           \<and> (\<forall>t. t < now + 30 * 60 \<longrightarrow> verify_token k (access_token tok) t = Inr ''demo'')))
   \<and> (\<not> (username form = ''demo'' \<and> password form = ''demo'') \<longrightarrow>
      login k form now = Inl login_exception
      \<and> status_code login_exception = 401
      \<and> headers login_exception = Some [(''WWW-Authenticate'', ''Bearer'')])"
  by (simp add: login_def create_access_token_eq verify_token_Signed minutes_def
      ACCESS_TOKEN_EXPIRE_MINUTES_def login_exception_def HTTP_401_UNAUTHORIZED_def Let_def)

theorem login_issues_verifiable_token_witness:
  "username demo_form = ''demo'' \<and> password demo_form = ''demo''
   \<and> login default_key demo_form 1000 = Inr \<lparr>access_token = demo_token, token_type = ''bearer''\<rparr>
   \<and> verify_token default_key demo_token 1000 = Inr ''demo''
   \<and> verify_token default_key demo_token 2799 = Inr ''demo''
   \<and> \<not> (username wrong_form = ''demo'' \<and> password wrong_form = ''demo'')
   \<and> login default_key wrong_form 1000 = Inl login_exception"
proof -
  have creds: "username demo_form = ''demo'' \<and> password demo_form = ''demo''"
    by (simp add: demo_form_def)
  with login_issues_verifiable_token [of demo_form default_key 1000] demo_login
  have "\<forall>t. t < 1000 + 30 * 60 \<longrightarrow> verify_token default_key demo_token t = Inr ''demo''"
    by simp
  then have v: "verify_token default_key demo_token 1000 = Inr ''demo''"
    "verify_token default_key demo_token 2799 = Inr ''demo''"
    by simp_all
  have other: "\<not> (username wrong_form = ''demo'' \<and> password wrong_form = ''demo'')"
    by (simp add: wrong_form_def)
  with login_issues_verifiable_token [of wrong_form default_key 1000]
  have "login default_key wrong_form 1000 = Inl login_exception"
    by blast
  with creds demo_login v other show ?thesis by blast
qed

text \<open>
  C5. A token returned by login carries the expiry claim 30 minutes (1800 seconds) after
  the instant of the login, and \<open>create_access_token\<close> without a duration sets the
  expiry claim 15 minutes (900 seconds) after the current instant.
\<close>

theorem token_expiry_durations:
  "(login k form now = Inr tok \<longrightarrow>
      (\<exists>p. access_token tok = Signed ALGORITHM p k \<and> exp_claim p = Some (now + 30 * 60)))
   \<and> create_access_token k data None now =
       Signed ALGORITHM (data\<lparr>exp_claim := Some (now + 15 * 60)\<rparr>) k"
proof -
  have "\<exists>p. access_token tok = Signed ALGORITHM p k \<and> exp_claim p = Some (now + 30 * 60)"
    if "login k form now = Inr tok"
    using login_Inr(3) [OF that] by simp
  moreover have "create_access_token k data None now =
       Signed ALGORITHM (data\<lparr>exp_claim := Some (now + 15 * 60)\<rparr>) k"
    by (simp add: create_access_token_eq minutes_def)
  ultimately show ?thesis by blast
qed

theorem token_expiry_durations_witness:
  "login default_key demo_form 1000 = Inr \<lparr>access_token = demo_token, token_type = ''bearer''\<rparr>
   \<and> (\<exists>p. demo_token = Signed ALGORITHM p default_key \<and> exp_claim p = Some (1000 + 30 * 60))"
  using token_expiry_durations [of default_key demo_form 1000
      "\<lparr>access_token = demo_token, token_type = ''bearer''\<rparr>"] demo_login
  by simp









end
